theory Spec2Isabelle
  imports Main "HOL-Library.Word"
begin

section \<open>JavaScript strings\<close>

text \<open>
  A JavaScript string is a sequence of UTF-16 code units. The program concatenates
  strings, compares them, tests them for emptiness (truthiness) and trims them; its
  literals are ASCII, written here through \<open>js\<close>.
\<close>

type_synonym jschar = "16 word"
type_synonym jsstring = "jschar list"

definition js :: "string \<Rightarrow> jsstring" where
  "js s = map of_char s"

text \<open>
  \<open>String.prototype.trim\<close> strips the code points of WhiteSpace and LineTerminator
  (ECMAScript): TAB, LF, VT, FF, CR, SP, NBSP, the other space separators and ZWNBSP.
\<close>

definition isWhiteSpace :: "jschar \<Rightarrow> bool" where
  "isWhiteSpace c = (c \<in> set [0x0009, 0x000A, 0x000B, 0x000C, 0x000D, 0x0020, 0x00A0,
     0x1680, 0x2000, 0x2001, 0x2002, 0x2003, 0x2004, 0x2005, 0x2006, 0x2007, 0x2008,
     0x2009, 0x200A, 0x2028, 0x2029, 0x202F, 0x205F, 0x3000, 0xFEFF])"

definition trim :: "jsstring \<Rightarrow> jsstring" where
  "trim s = rev (dropWhile isWhiteSpace (rev (dropWhile isWhiteSpace s)))"

text \<open>
  \<open>Date.now().toString()\<close>: the decimal digits of a millisecond count, which is a
  natural number.
\<close>

definition digit :: "nat \<Rightarrow> jschar" where
  "digit d = of_nat (48 + d)"

function toString :: "nat \<Rightarrow> jsstring" where
  "toString n = (if n < 10 then [digit n] else toString (n div 10) @ [digit (n mod 10)])"
  by pat_completeness auto
termination
  by (relation "measure (\<lambda>n. n)") auto

declare toString.simps [simp del]

section \<open>Data model\<close>

text \<open>\<open>App.tsx\<close>, lines 24 to 33: the interfaces \<open>Message\<close> and \<open>GroundingChunk\<close>.\<close>

datatype Role = User | Ai | System

record Message =
  id_m :: jsstring
  role :: Role
  content :: jsstring
  timestamp :: nat

text \<open>
  The grounding records come from the provider and are cast to \<open>GroundingChunk[]\<close>
  unchecked (line 123), so \<open>web\<close> and, at run time, \<open>uri\<close> and \<open>title\<close> may be absent;
  the code tests for that with \<open>c.web?.uri\<close>.
\<close>

record Web =
  uri :: "jsstring option"
  title :: "jsstring option"

record GroundingChunk =
  web :: "Web option"

text \<open>
  A response chunk of the provider, as far as \<open>handleSend\<close> reads it: the getter
  \<open>chunk.text\<close>, which throws when the content is blocked, yields \<open>undefined\<close> or yields
  a string; and \<open>chunk.candidates?.[0]?.groundingMetadata?.groundingChunks\<close>.
\<close>

datatype TextGetter = Throws | Undefined | Text jsstring

record GroundingMetadata =
  groundingChunks :: "GroundingChunk list option"

record Candidate =
  groundingMetadata :: "GroundingMetadata option"

record Chunk =
  text_c :: TextGetter
  candidates :: "Candidate list option"

text \<open>
  The async iterable returned by \<open>generateContentStream\<close>: finitely many chunks, after
  which the iteration either completes or throws. The request itself may be rejected
  before any chunk arrives.
\<close>

datatype StreamEnd = Completes | Fails

type_synonym ResponseStream = "Chunk list \<times> StreamEnd"

datatype ProviderError = ProviderError

type_synonym Provider = "jsstring \<Rightarrow> ProviderError + ResponseStream"

text \<open>
  The component state of \<open>App\<close> (lines 39 to 52) that \<open>handleSend\<close> reads and writes.
\<close>

record AppState =
  input :: jsstring
  messages :: "Message list"
  isArtifactOpen :: bool
  isResearching :: bool
  artifactContent :: jsstring
  groundingSources :: "GroundingChunk list"
  loadingStatus :: jsstring

definition welcomeMsg :: "nat \<Rightarrow> Message" where
  \<open>welcomeMsg t0 = \<lparr>id_m = js ''welcome'', role = Ai,
     content = js ''Hello. I am your Deep Research Assistant. Give me a topic, and I will conduct a comprehensive analysis, searching the web for the latest data.'',
     timestamp = t0\<rparr>\<close>

definition initialState :: "nat \<Rightarrow> AppState" where
  "initialState t0 = \<lparr>input = [], messages = [welcomeMsg t0], isArtifactOpen = True,
     isResearching = False, artifactContent = [], groundingSources = [],
     loadingStatus = []\<rparr>"

section \<open>The stream consumer: \<open>services/geminiService.ts\<close>\<close>

definition contextString :: "jsstring \<Rightarrow> jsstring" where
  \<open>contextString currentArtifact =
     (if currentArtifact \<noteq> []
      then js ''\<newline>--- EXISTING RESEARCH START ---\<newline>'' @ currentArtifact
        @ js ''\<newline>--- EXISTING RESEARCH END ---\<newline>\<newline>Based on the above, please expand the research further on:''
      else [])\<close>

definition prompt :: "jsstring \<Rightarrow> jsstring \<Rightarrow> jsstring" where
  \<open>prompt topic currentArtifact =
     js ''\<newline>    '' @ contextString currentArtifact
     @ js ''\<newline>    Topic: '' @ topic
     @ js ''\<newline>    \<newline>    Please conduct a deep research session on this topic. \<newline>    Expand on sub-topics, historical context, future implications, and key statistics.\<newline>    Ensure the tone is professional and objective.\<newline>  ''\<close>

text \<open>
  \<open>streamResearch\<close> builds the prompt, calls the provider (\<open>gen\<close>, the call of
  \<open>ai.models.generateContentStream\<close> with the fixed model and configuration) and
  rethrows its error.
\<close>

definition streamResearch :: "Provider \<Rightarrow> jsstring \<Rightarrow> jsstring \<Rightarrow> ProviderError + ResponseStream" where
  "streamResearch gen topic currentArtifact =
     (case gen (prompt topic currentArtifact) of
        Inl error \<Rightarrow> Inl error
      | Inr responseStream \<Rightarrow> Inr responseStream)"

section \<open>The artifact merger: \<open>handleSend\<close> in \<open>App.tsx\<close>\<close>

text \<open>
  \<open>now k\<close> is what the \<open>k\<close>-th call of \<open>Date.now()\<close> in one run of \<open>handleSend\<close>
  returns (counting from 0, in program order).
\<close>

type_synonym Clock = "nat \<Rightarrow> nat"

definition separator :: jsstring where
  "separator = js ''\<newline>\<newline>---\<newline>\<newline>''"

definition userMsg :: "Clock \<Rightarrow> AppState \<Rightarrow> Message" where
  "userMsg now s = \<lparr>id_m = toString (now 0), role = User, content = input s,
     timestamp = now 1\<rparr>"

definition thinkingId :: "Clock \<Rightarrow> jsstring" where
  "thinkingId now = js ''thinking-'' @ toString (now 2)"

definition thinkingMsg :: "Clock \<Rightarrow> Message" where
  "thinkingMsg now = \<lparr>id_m = thinkingId now, role = System,
     content = js ''Conducting deep search and analysis...'', timestamp = now 3\<rparr>"

definition completionMsg :: "Clock \<Rightarrow> jsstring \<Rightarrow> Message" where
  \<open>completionMsg now topic = \<lparr>id_m = toString (now 4), role = Ai,
     content = js ''I've updated the research artifact with findings on "'' @ topic @ js ''".'',
     timestamp = now 5\<rparr>\<close>

definition errorMsg :: "Clock \<Rightarrow> Message" where
  "errorMsg now = \<lparr>id_m = toString (now 4), role = System,
     content = js ''An error occurred during research. Please try again.'',
     timestamp = now 5\<rparr>"

text \<open>
  Lines 75 to 101, up to the call of \<open>streamResearch\<close>: the user message, the state
  flags, the separator (line 92) and the placeholder message.
\<close>

definition submit :: "Clock \<Rightarrow> AppState \<Rightarrow> AppState" where
  "submit now s = s\<lparr>
     messages := (messages s @ [userMsg now s]) @ [thinkingMsg now],
     input := [],
     isResearching := True,
     isArtifactOpen := True,
     artifactContent :=
       (if artifactContent s \<noteq> [] then artifactContent s @ separator else []),
     loadingStatus := js ''Searching global indices...''\<rparr>"

text \<open>
  Lines 105 to 112: \<open>None\<close> when the getter throws (the loop body ends at \<open>continue\<close>),
  otherwise the value of \<open>chunk.text || ''\<close>.
\<close>

definition readText :: "Chunk \<Rightarrow> jsstring option" where
  "readText chunk =
     (case text_c chunk of
        Throws \<Rightarrow> None
      | Undefined \<Rightarrow> Some []
      | Text t \<Rightarrow> Some (if t \<noteq> [] then t else []))"

text \<open>Line 119 and the test of line 120: \<open>metadata?.groundingChunks\<close>.\<close>

definition metadataOf :: "Chunk \<Rightarrow> GroundingMetadata option" where
  "metadataOf chunk =
     (case candidates chunk of
        None \<Rightarrow> None
      | Some [] \<Rightarrow> None
      | Some (candidate # _) \<Rightarrow> groundingMetadata candidate)"

definition groundingChunksOf :: "Chunk \<Rightarrow> GroundingChunk list option" where
  "groundingChunksOf chunk =
     (case metadataOf chunk of None \<Rightarrow> None | Some metadata \<Rightarrow> groundingChunks metadata)"

text \<open>\<open>c.web?.uri\<close>, and its truthiness: defined and not the empty string.\<close>

definition uriOf :: "GroundingChunk \<Rightarrow> jsstring option" where
  "uriOf c = (case web c of None \<Rightarrow> None | Some w \<Rightarrow> uri w)"

definition hasUri :: "GroundingChunk \<Rightarrow> bool" where
  "hasUri c = (case uriOf c of None \<Rightarrow> False | Some u \<Rightarrow> u \<noteq> [])"

text \<open>Lines 121 to 127: the updater passed to \<open>setGroundingSources\<close>.\<close>

definition mergeSources :: "GroundingChunk list \<Rightarrow> GroundingChunk list \<Rightarrow> GroundingChunk list" where
  "mergeSources prev newChunks =
     (let existingUris = set (map uriOf prev);
          uniqueChunks = filter (\<lambda>c. hasUri c \<and> uriOf c \<notin> existingUris) newChunks
      in prev @ uniqueChunks)"

text \<open>Lines 105 to 128: the body of the \<open>for await\<close> loop, for one chunk.\<close>

definition onChunk :: "AppState \<Rightarrow> Chunk \<Rightarrow> AppState" where
  "onChunk s chunk =
     (case readText chunk of
        None \<Rightarrow> s
      | Some text \<Rightarrow>
          (let s1 = (if text \<noteq> [] then s\<lparr>artifactContent := artifactContent s @ text\<rparr> else s)
           in case groundingChunksOf chunk of
                None \<Rightarrow> s1
              | Some newChunks \<Rightarrow>
                  s1\<lparr>groundingSources := mergeSources (groundingSources s1) newChunks\<rparr>))"

text \<open>Line 104: the loop over the chunks that arrive.\<close>

fun forAwait :: "AppState \<Rightarrow> Chunk list \<Rightarrow> AppState" where
  "forAwait s [] = s"
| "forAwait s (chunk # rest) = forAwait (onChunk s chunk) rest"

text \<open>Lines 149 to 151, the \<open>finally\<close> block.\<close>

definition finallyBlock :: "AppState \<Rightarrow> AppState" where
  "finallyBlock s = s\<lparr>isResearching := False, loadingStatus := []\<rparr>"

text \<open>Lines 131 to 138, after the loop has completed, followed by the \<open>finally\<close> block.\<close>

definition onStreamEnd :: "Clock \<Rightarrow> jsstring \<Rightarrow> AppState \<Rightarrow> AppState" where
  "onStreamEnd now topic s = finallyBlock (s\<lparr>
     loadingStatus := [],
     messages := filter (\<lambda>m. id_m m \<noteq> thinkingId now) (messages s) @ [completionMsg now topic]\<rparr>)"

text \<open>Lines 140 to 148, the \<open>catch\<close> block, followed by the \<open>finally\<close> block.\<close>

definition onStreamError :: "Clock \<Rightarrow> AppState \<Rightarrow> AppState" where
  "onStreamError now s = finallyBlock (s\<lparr>
     loadingStatus := [],
     messages := filter (\<lambda>m. id_m m \<noteq> thinkingId now) (messages s) @ [errorMsg now]\<rparr>)"

text \<open>
  Lines 72 to 154. \<open>streamResearch\<close> receives \<open>artifactContent\<close> as the handler's
  closure holds it, that is, before the separator is added.
\<close>

definition handleSend :: "Provider \<Rightarrow> Clock \<Rightarrow> AppState \<Rightarrow> AppState" where
  "handleSend gen now s =
     (if trim (input s) = [] \<or> isResearching s then s
      else
        (let s1 = submit now s in
         case streamResearch gen (content (userMsg now s)) (artifactContent s) of
           Inl error \<Rightarrow> onStreamError now s1
         | Inr (chunks, ending) \<Rightarrow>
             (let s2 = forAwait s1 chunks in
              case ending of
                Completes \<Rightarrow> onStreamEnd now (content (userMsg now s)) s2
              | Fails \<Rightarrow> onStreamError now s2)))"

section \<open>Example inputs\<close>

text \<open>Concrete values at which the theorems below are instantiated.\<close>

definition exampleClock :: Clock where
  "exampleClock k = 1000 + k"

definition citation :: "string \<Rightarrow> string \<Rightarrow> GroundingChunk" where
  "citation u t = \<lparr>web = Some \<lparr>uri = Some (js u), title = Some (js t)\<rparr>\<rparr>"

definition chunkWith :: "TextGetter \<Rightarrow> GroundingChunk list \<Rightarrow> Chunk" where
  "chunkWith t g = \<lparr>text_c = t,
     candidates = Some [\<lparr>groundingMetadata = Some \<lparr>groundingChunks = Some g\<rparr>\<rparr>]\<rparr>"

text \<open>
  The scenario of the specification: two chunks of text and a third whose text is
  suppressed, with the citation batches \<open>a.com\<close>, \<open>a.com\<close>, \<open>b.com\<close>.
\<close>

definition quantumChunks :: "Chunk list" where
  "quantumChunks =
     [chunkWith (Text (js ''# Quantum\<newline>'')) [citation ''a.com'' ''A''],
      chunkWith (Text (js ''## History\<newline>...'')) [citation ''a.com'' ''A''],
      chunkWith Throws [citation ''b.com'' ''B'']]"

definition quantumProvider :: Provider where
  "quantumProvider p = Inr (quantumChunks, Completes)"

definition quantumState :: AppState where
  "quantumState = (initialState 0)\<lparr>input := js ''Quantum Computing''\<rparr>"

text \<open>A stream that throws after one chunk of text.\<close>

definition partialProvider :: Provider where
  "partialProvider p =
     Inr ([\<lparr>text_c = Text (js ''partial text''), candidates = None\<rparr>], Fails)"

text \<open>A batch with records that lack \<open>web\<close>, lack \<open>uri\<close> or have an empty \<open>uri\<close>.\<close>

definition raggedBatch :: "GroundingChunk list" where
  "raggedBatch =
     [\<lparr>web = None\<rparr>,
      citation ''a.com'' ''A'',
      \<lparr>web = Some \<lparr>uri = None, title = Some (js ''untitled'')\<rparr>\<rparr>,
      \<lparr>web = Some \<lparr>uri = Some [], title = Some (js ''empty'')\<rparr>\<rparr>]"

definition raggedProvider :: Provider where
  "raggedProvider p = Inr ([chunkWith (Text (js ''x'')) raggedBatch], Completes)"

lemmas example_defs = exampleClock_def citation_def chunkWith_def quantumChunks_def
  quantumProvider_def quantumState_def partialProvider_def raggedBatch_def
  raggedProvider_def initialState_def welcomeMsg_def

lemmas model_defs = handleSend_def submit_def onChunk_def readText_def groundingChunksOf_def
  metadataOf_def mergeSources_def uriOf_def hasUri_def streamResearch_def onStreamEnd_def
  onStreamError_def finallyBlock_def userMsg_def thinkingMsg_def thinkingId_def
  completionMsg_def errorMsg_def separator_def trim_def isWhiteSpace_def js_def

section \<open>Message identifiers\<close>

text \<open>
  An identifier made by \<open>Date.now().toString()\<close> starts with a decimal digit, so it is
  never the identifier of a placeholder message, which starts with \<open>thinking-\<close>.
\<close>

lemma digit_not_t: "d < 10 \<Longrightarrow> digit d \<noteq> of_char CHR ''t''"
proof
  assume d: "d < 10" and e: "digit d = of_char CHR ''t''"
  have "unat (digit d) = 48 + d"
    unfolding digit_def using d by (intro of_nat_inverse [OF refl]) simp
  moreover have "unat (of_char CHR ''t'' :: jschar) = 116" by simp
  ultimately show False using d e by simp
qed

lemma toString_hd: "\<exists>d rest. d < 10 \<and> toString n = digit d # rest"
proof (induction n rule: toString.induct)
  case (1 n)
  show ?case
  proof (cases "n < 10")
    case True
    then show ?thesis by (subst toString.simps) auto
  next
    case False
    with 1 obtain d rest where "d < 10" "toString (n div 10) = digit d # rest" by blast
    with False show ?thesis by (subst toString.simps) auto
  qed
qed

lemma toString_not_thinking: "toString n \<noteq> js ''thinking-'' @ x"
proof -
  obtain d rest where d: "d < 10" and t: "toString n = digit d # rest"
    using toString_hd by blast
  show ?thesis using digit_not_t [OF d] by (simp add: t js_def)
qed

lemma userMsg_not_thinking: "id_m (userMsg now s) \<noteq> thinkingId now'"
  by (simp add: userMsg_def thinkingId_def toString_not_thinking)

section \<open>The loop over the chunks\<close>

lemma forAwait_append: "forAwait s (xs @ ys) = forAwait (forAwait s xs) ys"
  by (induction xs arbitrary: s) simp_all

lemma artifactContent_onChunk:
  "artifactContent (onChunk s c) =
     artifactContent s @ (case readText c of None \<Rightarrow> [] | Some t \<Rightarrow> t)"
  by (simp add: onChunk_def Let_def split: option.splits)

lemma artifactContent_forAwait:
  "artifactContent (forAwait s cs) = artifactContent s @ concat (List.map_filter readText cs)"
  by (induction cs arbitrary: s) (simp_all add: artifactContent_onChunk split: option.splits)

lemma messages_onChunk: "messages (onChunk s c) = messages s"
  by (simp add: onChunk_def Let_def split: option.splits)

lemma messages_forAwait: "messages (forAwait s cs) = messages s"
  by (induction cs arbitrary: s) (simp_all add: messages_onChunk)

lemma mergeSources_added:
  "\<exists>added. mergeSources prev new = prev @ added \<and> list_all hasUri added"
  by (simp add: mergeSources_def Let_def list_all_iff)

lemma groundingSources_onChunk:
  "\<exists>added. groundingSources (onChunk s c) = groundingSources s @ added \<and> list_all hasUri added"
  using mergeSources_added [of "groundingSources s"]
  by (auto simp add: onChunk_def Let_def split: option.splits)

lemma groundingSources_forAwait:
  "\<exists>added. groundingSources (forAwait s cs) = groundingSources s @ added \<and> list_all hasUri added"
proof (induction cs arbitrary: s)
  case Nil
  show ?case by simp
next
  case (Cons c cs)
  obtain a1 where a1: "groundingSources (onChunk s c) = groundingSources s @ a1"
      "list_all hasUri a1"
    using groundingSources_onChunk by blast
  obtain a2 where a2:
      "groundingSources (forAwait (onChunk s c) cs) = groundingSources (onChunk s c) @ a2"
      "list_all hasUri a2"
    using Cons.IH by blast
  have "groundingSources (forAwait s (c # cs)) = groundingSources s @ (a1 @ a2)"
    using a1 a2 by simp
  moreover have "list_all hasUri (a1 @ a2)" using a1 a2 by simp
  ultimately show ?case by blast
qed

lemma hasUri_iff: "hasUri c \<longleftrightarrow> (\<exists>w u. web c = Some w \<and> uri w = Some u \<and> u \<noteq> [])"
  by (auto simp add: hasUri_def uriOf_def split: option.splits)



section \<open>Rejected submissions\<close>

lemma all_dropWhile: "(\<forall>x\<in>set (dropWhile P xs). P x) \<longleftrightarrow> (\<forall>x\<in>set xs. P x)"
  by (induction xs) auto

lemma trim_empty_iff: "trim s = [] \<longleftrightarrow> list_all isWhiteSpace s"
  by (simp add: trim_def all_dropWhile list_all_iff)

text \<open>
  C5. While a research session is running (\<open>isResearching\<close> holds), \<open>handleSend\<close> returns
  at line 73 and leaves the whole state as it is: messages, artifact, sources and the
  flag itself. The provider is not called, so no second stream is consumed.
\<close>

theorem submit_while_researching_noop:
  "isResearching s \<Longrightarrow> handleSend gen now s = s"
  by (simp add: handleSend_def)

text \<open>C5 at a state that is researching, with a provider that would deliver chunks.\<close>

theorem submit_while_researching_noop_witness:
  "isResearching (quantumState\<lparr>isResearching := True\<rparr>)
   \<and> handleSend quantumProvider exampleClock (quantumState\<lparr>isResearching := True\<rparr>)
       = quantumState\<lparr>isResearching := True\<rparr>"
  using submit_while_researching_noop
    [of "quantumState\<lparr>isResearching := True\<rparr>" quantumProvider exampleClock]
  by simp

text \<open>
  C8. When the input is empty or consists of whitespace only, \<open>handleSend\<close> returns at
  line 73 with the state unchanged: no message, no change of artifact, sources or flag,
  and no call of the provider.
\<close>

theorem blank_input_rejected:
  "list_all isWhiteSpace (input s) \<Longrightarrow> handleSend gen now s = s"
  by (simp add: handleSend_def trim_empty_iff)

text \<open>C8 at the input of a space, a line feed and two spaces.\<close>

theorem blank_input_rejected_witness:
  "list_all isWhiteSpace (input ((initialState 0)\<lparr>input := js '' \<newline>  ''\<rparr>))
   \<and> handleSend quantumProvider exampleClock ((initialState 0)\<lparr>input := js '' \<newline>  ''\<rparr>)
       = (initialState 0)\<lparr>input := js '' \<newline>  ''\<rparr>"
proof -
  have h: "list_all isWhiteSpace (input ((initialState 0)\<lparr>input := js '' \<newline>  ''\<rparr>))"
    by (simp add: isWhiteSpace_def js_def)
  show ?thesis
    using h blank_input_rejected [OF h, of quantumProvider exampleClock] by simp
qed

section \<open>The artifact\<close>

text \<open>
  C1. After a session that is accepted and whose stream completes, the artifact is the
  prior content, then the separator if and only if the prior content is not empty, then
  the texts read from the chunks whose text is not suppressed, concatenated in the order
  of arrival.
\<close>

theorem artifact_after_successful_session:
  assumes "trim (input s) \<noteq> []" and "\<not> isResearching s"
    and "streamResearch gen (input s) (artifactContent s) = Inr (chunks, Completes)"
  shows "artifactContent (handleSend gen now s) =
           artifactContent s @ (if artifactContent s \<noteq> [] then separator else [])
             @ concat (List.map_filter readText chunks)"
  using assms
  by (simp add: handleSend_def Let_def userMsg_def onStreamEnd_def finallyBlock_def
      artifactContent_forAwait submit_def)

text \<open>C1 at a prior artifact \<open>Intro\<close> and the three chunks of the scenario.\<close>

theorem artifact_after_successful_session_witness:
  "trim (input (quantumState\<lparr>artifactContent := js ''Intro''\<rparr>)) \<noteq> []
   \<and> \<not> isResearching (quantumState\<lparr>artifactContent := js ''Intro''\<rparr>)
   \<and> streamResearch quantumProvider (input (quantumState\<lparr>artifactContent := js ''Intro''\<rparr>))
        (artifactContent (quantumState\<lparr>artifactContent := js ''Intro''\<rparr>))
       = Inr (quantumChunks, Completes)
   \<and> artifactContent (handleSend quantumProvider exampleClock
        (quantumState\<lparr>artifactContent := js ''Intro''\<rparr>))
       = js ''Intro\<newline>\<newline>---\<newline>\<newline># Quantum\<newline>## History\<newline>...''"
proof -
  let ?s = "quantumState\<lparr>artifactContent := js ''Intro''\<rparr>"
  have h1: "trim (input ?s) \<noteq> []"
    by (simp add: example_defs trim_def isWhiteSpace_def js_def)
  have h2: "\<not> isResearching ?s"
    by (simp add: example_defs)
  have h3: "streamResearch quantumProvider (input ?s) (artifactContent ?s)
      = Inr (quantumChunks, Completes)"
    by (simp add: streamResearch_def quantumProvider_def)
  have "artifactContent (handleSend quantumProvider exampleClock ?s)
      = js ''Intro\<newline>\<newline>---\<newline>\<newline># Quantum\<newline>## History\<newline>...''"
    using artifact_after_successful_session [OF h1 h2 h3, of exampleClock]
    by (simp add: example_defs readText_def separator_def js_def)
  with h1 h2 h3 show ?thesis by blast
qed

text \<open>
  C3, as amended. A chunk whose text getter throws is skipped whole (\<open>continue\<close>, line
  111): it adds no text and no source, the state is as before, and the chunks before and
  after it are processed as if it had not been there.
\<close>

theorem suppressed_chunk_skipped:
  "text_c c = Throws \<Longrightarrow>
     onChunk s c = s \<and> forAwait s (before @ c # after) = forAwait s (before @ after)"
  by (simp add: forAwait_append onChunk_def readText_def)

text \<open>C3, as amended, at a suppressed chunk between two runs of the scenario's chunks.\<close>

theorem suppressed_chunk_skipped_witness:
  "text_c (chunkWith Throws [citation ''b.com'' ''B'']) = Throws
   \<and> onChunk quantumState (chunkWith Throws [citation ''b.com'' ''B'']) = quantumState
   \<and> forAwait quantumState (quantumChunks @ chunkWith Throws [citation ''b.com'' ''B'']
         # quantumChunks)
       = forAwait quantumState (quantumChunks @ quantumChunks)"
proof -
  have h: "text_c (chunkWith Throws [citation ''b.com'' ''B'']) = Throws"
    by (simp add: chunkWith_def)
  show ?thesis
    using h suppressed_chunk_skipped [OF h, of quantumState quantumChunks quantumChunks]
    by simp
qed

text \<open>
  C3 as stated fails: the sources that a suppressed chunk carries are not merged.
\<close>

theorem suppressed_chunk_citations_counterexample:
  "text_c (chunkWith Throws [citation ''b.com'' ''B'']) = Throws
   \<and> groundingChunksOf (chunkWith Throws [citation ''b.com'' ''B''])
       = Some [citation ''b.com'' ''B'']
   \<and> groundingSources (onChunk quantumState (chunkWith Throws [citation ''b.com'' ''B'']))
       \<noteq> mergeSources (groundingSources quantumState) [citation ''b.com'' ''B'']"
  by (simp add: example_defs model_defs)



text \<open>
  C7. When the stream throws after some chunks, the session is idle again, the message
  list ends with the user message and one error message of role \<open>system\<close> (the
  placeholder is gone), and the artifact is what it was when the stream failed: prior
  content, separator, and the texts of the chunks that arrived.
\<close>

theorem stream_error_keeps_partial_artifact:
  assumes "trim (input s) \<noteq> []" and "\<not> isResearching s"
    and "streamResearch gen (input s) (artifactContent s) = Inr (chunks, Fails)"
  shows "\<not> isResearching (handleSend gen now s)
     \<and> messages (handleSend gen now s)
         = filter (\<lambda>m. id_m m \<noteq> thinkingId now) (messages s) @ [userMsg now s, errorMsg now]
     \<and> role (errorMsg now) = System
     \<and> artifactContent (handleSend gen now s) = artifactContent (forAwait (submit now s) chunks)
     \<and> artifactContent (handleSend gen now s)
         = artifactContent s @ (if artifactContent s \<noteq> [] then separator else [])
             @ concat (List.map_filter readText chunks)"
proof -
  have r: "handleSend gen now s = onStreamError now (forAwait (submit now s) chunks)"
    using assms by (simp add: handleSend_def Let_def userMsg_def)
  have m: "messages (submit now s) = messages s @ [userMsg now s, thinkingMsg now]"
    by (simp add: submit_def)
  show ?thesis
    unfolding r
    by (simp add: onStreamError_def finallyBlock_def messages_forAwait m userMsg_not_thinking
        thinkingMsg_def errorMsg_def artifactContent_forAwait submit_def)
qed

text \<open>C7 at the stream that throws after the chunk \<open>partial text\<close>.\<close>

theorem stream_error_keeps_partial_artifact_witness:
  "trim (input quantumState) \<noteq> [] \<and> \<not> isResearching quantumState
   \<and> streamResearch partialProvider (input quantumState) (artifactContent quantumState)
       = Inr ([\<lparr>text_c = Text (js ''partial text''), candidates = None\<rparr>], Fails)
   \<and> \<not> isResearching (handleSend partialProvider exampleClock quantumState)
   \<and> messages (handleSend partialProvider exampleClock quantumState)
       = [welcomeMsg 0, userMsg exampleClock quantumState, errorMsg exampleClock]
   \<and> artifactContent (handleSend partialProvider exampleClock quantumState)
       = js ''partial text''"
proof -
  have h1: "trim (input quantumState) \<noteq> []"
    by (simp add: example_defs trim_def isWhiteSpace_def js_def)
  have h2: "\<not> isResearching quantumState"
    by (simp add: example_defs)
  have h3: "streamResearch partialProvider (input quantumState) (artifactContent quantumState)
      = Inr ([\<lparr>text_c = Text (js ''partial text''), candidates = None\<rparr>], Fails)"
    by (simp add: streamResearch_def partialProvider_def)
  have t: "filter (\<lambda>m. id_m m \<noteq> thinkingId exampleClock) (messages quantumState)
      = [welcomeMsg 0]"
    by (simp add: example_defs thinkingId_def js_def)
  have a: "artifactContent quantumState = []"
    by (simp add: example_defs)
  show ?thesis
    using h1 h2 h3 stream_error_keeps_partial_artifact [OF h1 h2 h3, of exampleClock]
    by (simp add: t a readText_def js_def artifactContent_onChunk submit_def)
qed

section \<open>The sources\<close>

lemma mergeSources_present_unchanged:
  "\<forall>c\<in>set new. uriOf c \<in> set (map uriOf prev) \<Longrightarrow> mergeSources prev new = prev"
  by (simp add: mergeSources_def Let_def)

lemma mergeSources_distinct:
  assumes "distinct (map uriOf prev)" and "distinct (map uriOf (filter hasUri new))"
  shows "distinct (map uriOf (mergeSources prev new))"
proof -
  have "filter (\<lambda>c. hasUri c \<and> uriOf c \<notin> set (map uriOf prev)) new
      = filter (\<lambda>c. uriOf c \<notin> set (map uriOf prev)) (filter hasUri new)"
    by (simp add: conj_commute)
  moreover have "distinct (map uriOf (filter (\<lambda>c. uriOf c \<notin> set (map uriOf prev))
      (filter hasUri new)))"
    using assms(2) by (rule distinct_map_filter)
  ultimately show ?thesis
    using assms(1) by (auto simp add: mergeSources_def Let_def intro: rev_image_eqI)
qed

text \<open>
  C2. The merge compares a new record with the sources of before the batch only, so two
  records of one batch with the same \<open>uri\<close> are both added, and the list holds that
  \<open>uri\<close> twice.
\<close>

theorem mergeSources_duplicate_in_batch:
  "mergeSources [] [citation ''a.com'' ''A'', citation ''a.com'' ''A'']
     = [citation ''a.com'' ''A'', citation ''a.com'' ''A'']
   \<and> \<not> distinct (map uriOf (groundingSources (onChunk (initialState 0)
          (chunkWith (Text (js ''x'')) [citation ''a.com'' ''A'', citation ''a.com'' ''A'']))))"
  by (simp add: example_defs model_defs Let_def)

text \<open>
  C10. Whatever \<open>handleSend\<close> does, the sources afterwards are the sources of before
  followed by added records, and every added record has a \<open>web\<close> field with a \<open>uri\<close>
  that is defined and not empty.
\<close>

theorem added_sources_have_uri:
  "\<exists>added. groundingSources (handleSend gen now s) = groundingSources s @ added
     \<and> (\<forall>c\<in>set added. \<exists>w u. web c = Some w \<and> uri w = Some u \<and> u \<noteq> [])"
proof -
  have f: "\<exists>added. groundingSources (forAwait (submit now s) cs) = groundingSources s @ added
     \<and> list_all hasUri added" for cs
    using groundingSources_forAwait [of "submit now s" cs] by (simp add: submit_def)
  have "\<exists>added. groundingSources (handleSend gen now s) = groundingSources s @ added
     \<and> list_all hasUri added"
  proof (cases "trim (input s) = [] \<or> isResearching s")
    case True
    then show ?thesis by (simp add: handleSend_def)
  next
    case False
    show ?thesis
    proof (cases "streamResearch gen (content (userMsg now s)) (artifactContent s)")
      case (Inl e)
      then show ?thesis
        using False f [of "[]"]
        by (simp add: handleSend_def Let_def onStreamError_def finallyBlock_def)
    next
      case (Inr r)
      obtain cs ending where r: "r = (cs, ending)" by (cases r)
      show ?thesis
        using False Inr r f [of cs]
        by (cases ending)
          (simp_all add: handleSend_def Let_def onStreamError_def onStreamEnd_def
            finallyBlock_def)
    qed
  qed
  then show ?thesis by (simp add: list_all_iff hasUri_iff)
qed

text \<open>
  C10 at a batch that holds a record without \<open>web\<close>, one without \<open>uri\<close> and one with
  an empty \<open>uri\<close>: only \<open>a.com\<close> is added.
\<close>

theorem added_sources_have_uri_witness:
  "groundingSources (handleSend raggedProvider exampleClock quantumState)
     = [citation ''a.com'' ''A'']
   \<and> (\<exists>added. groundingSources (handleSend raggedProvider exampleClock quantumState)
         = groundingSources quantumState @ added
       \<and> (\<forall>c\<in>set added. \<exists>w u. web c = Some w \<and> uri w = Some u \<and> u \<noteq> []))"
proof -
  have "groundingSources (handleSend raggedProvider exampleClock quantumState)
     = [citation ''a.com'' ''A'']"
    by (simp add: example_defs model_defs Let_def)
  then show ?thesis
    using added_sources_have_uri [of raggedProvider exampleClock quantumState] by simp
qed

text \<open>
  C4, as amended. In the scenario the artifact ends as the two texts, and the sources as
  \<open>a.com\<close> alone: the third chunk is suppressed and skipped whole, its batch with it.
\<close>

theorem quantum_scenario:
  "artifactContent (initialState t0) = []
   \<and> artifactContent (handleSend quantumProvider now
        ((initialState t0)\<lparr>input := js ''Quantum Computing''\<rparr>))
       = js ''# Quantum\<newline>## History\<newline>...''
   \<and> groundingSources (handleSend quantumProvider now
        ((initialState t0)\<lparr>input := js ''Quantum Computing''\<rparr>))
       = [citation ''a.com'' ''A'']"
  by (simp add: example_defs model_defs Let_def)

text \<open>C4 as stated fails: \<open>b.com\<close> is not among the sources.\<close>

theorem quantum_scenario_counterexample:
  "\<not> (artifactContent (handleSend quantumProvider exampleClock quantumState)
         = js ''# Quantum\<newline>## History\<newline>...''
       \<and> groundingSources (handleSend quantumProvider exampleClock quantumState)
         = [citation ''a.com'' ''A'', citation ''b.com'' ''B''])"
  by (simp add: example_defs model_defs Let_def)

section \<open>The message list\<close>

text \<open>
  C6, as amended. Submitting appends the user message and the placeholder; a chunk leaves
  the list as it is; the end of the stream and its failure remove the messages that carry
  the placeholder's identifier, keep every other message in place and append one message.
  Over a whole accepted run the list of before, without messages of that identifier, is
  followed by the user message and one final message.
\<close>

theorem message_list_operations:
  "messages (submit now s) = messages s @ [userMsg now s, thinkingMsg now]
   \<and> messages (onChunk s c) = messages s
   \<and> messages (onStreamEnd now topic s)
       = filter (\<lambda>m. id_m m \<noteq> thinkingId now) (messages s) @ [completionMsg now topic]
   \<and> messages (onStreamError now s)
       = filter (\<lambda>m. id_m m \<noteq> thinkingId now) (messages s) @ [errorMsg now]
   \<and> (trim (input s) \<noteq> [] \<and> \<not> isResearching s \<longrightarrow>
        (\<exists>final. messages (handleSend gen now s)
           = filter (\<lambda>m. id_m m \<noteq> thinkingId now) (messages s) @ [userMsg now s, final]))"
proof -
  have a: "messages (submit now s) = messages s @ [userMsg now s, thinkingMsg now]"
    by (simp add: submit_def)
  have b: "messages (onStreamEnd now topic s)
       = filter (\<lambda>m. id_m m \<noteq> thinkingId now) (messages s) @ [completionMsg now topic]"
    for topic s
    by (simp add: onStreamEnd_def finallyBlock_def)
  have c: "messages (onStreamError now s)
       = filter (\<lambda>m. id_m m \<noteq> thinkingId now) (messages s) @ [errorMsg now]" for s
    by (simp add: onStreamError_def finallyBlock_def)
  have f: "filter (\<lambda>m. id_m m \<noteq> thinkingId now) (messages (forAwait (submit now s) cs))
       = filter (\<lambda>m. id_m m \<noteq> thinkingId now) (messages s) @ [userMsg now s]" for cs
    by (simp add: messages_forAwait a userMsg_not_thinking thinkingMsg_def)
  have d: "\<exists>final. messages (handleSend gen now s)
           = filter (\<lambda>m. id_m m \<noteq> thinkingId now) (messages s) @ [userMsg now s, final]"
    if "trim (input s) \<noteq> []" "\<not> isResearching s"
  proof (cases "streamResearch gen (content (userMsg now s)) (artifactContent s)")
    case (Inl e)
    then show ?thesis
      using that f [of "[]"] by (simp add: handleSend_def Let_def c)
  next
    case (Inr r)
    obtain cs ending where r: "r = (cs, ending)" by (cases r)
    show ?thesis
      using that Inr r f [of cs]
      by (cases ending) (simp_all add: handleSend_def Let_def b c)
  qed
  show ?thesis using a b c d by (simp add: messages_onChunk)
qed

text \<open>C6, as amended, at the scenario: the welcome message stays in front.\<close>

theorem message_list_operations_witness:
  "trim (input quantumState) \<noteq> [] \<and> \<not> isResearching quantumState
   \<and> (\<exists>final. messages (handleSend quantumProvider exampleClock quantumState)
         = [welcomeMsg 0, userMsg exampleClock quantumState, final])"
proof -
  have h: "trim (input quantumState) \<noteq> [] \<and> \<not> isResearching quantumState"
    by (simp add: example_defs trim_def isWhiteSpace_def js_def)
  have t: "filter (\<lambda>m. id_m m \<noteq> thinkingId exampleClock) (messages quantumState)
      = [welcomeMsg 0]"
    by (simp add: example_defs thinkingId_def js_def)
  show ?thesis
    using h t message_list_operations [of exampleClock quantumState _ _ quantumProvider]
    by simp
qed

text \<open>
  C6 as stated fails: the placeholder is in the list after submitting and no longer
  there after the stream has ended or failed.
\<close>

theorem thinking_message_removed_counterexample:
  "thinkingMsg exampleClock \<in> set (messages (submit exampleClock quantumState))
   \<and> thinkingMsg exampleClock \<notin> set (messages
        (onStreamEnd exampleClock (js ''Quantum Computing'') (submit exampleClock quantumState)))
   \<and> thinkingMsg exampleClock \<notin> set (messages
        (onStreamError exampleClock (submit exampleClock quantumState)))"
  by (simp add: example_defs model_defs toString.simps digit_def)

end
